theory Spec2Isabelle
  imports Complex_Main "HOL-Library.AList" "HOL-Library.Char_ord" "HOL-Library.List_Lexorder"
begin

section \<open>Python values\<close>

text \<open>
  A Python call either returns or raises. Calls that can raise are modelled with the
  result type \<open>error + 'a\<close>, \<open>Inl\<close> carrying the exception. \<open>IOError\<close> stands for whatever
  an external collaborator (a sink writing a file) may raise.
\<close>

datatype error = TypeError | KeyError | AttributeError | ValueError | MergeError | IOError string

text \<open>
  A Python \<open>dict\<close> keeps insertion order, so it is an association list with distinct keys:
  \<open>d[k]\<close> is \<open>map_of d k\<close> (\<open>None\<close> standing for \<open>KeyError\<close>), \<open>d[k] = v\<close> is
  \<open>AList.update k v d\<close> (the value is replaced in place when the key exists, the pair is
  appended otherwise), \<open>list(d)\<close> is \<open>map fst d\<close> and \<open>len(d)\<close> is \<open>length d\<close>.
\<close>

fun mapM :: "('a \<Rightarrow> error + 'b) \<Rightarrow> 'a list \<Rightarrow> error + 'b list" where
  "mapM f [] = Inr []"
| "mapM f (x # xs) =
     (case f x of
        Inl e \<Rightarrow> Inl e
      | Inr y \<Rightarrow> (case mapM f xs of Inl e \<Rightarrow> Inl e | Inr ys \<Rightarrow> Inr (y # ys)))"

fun foldM :: "('a \<Rightarrow> 'b \<Rightarrow> error + 'a) \<Rightarrow> 'a \<Rightarrow> 'b list \<Rightarrow> error + 'a" where
  "foldM f a [] = Inr a"
| "foldM f a (x # xs) = (case f a x of Inl e \<Rightarrow> Inl e | Inr a' \<Rightarrow> foldM f a' xs)"

text \<open>\<open>functools.reduce\<close> without an initial value: \<open>TypeError\<close> on an empty sequence.\<close>

definition reduce :: "('a \<Rightarrow> 'a \<Rightarrow> error + 'a) \<Rightarrow> 'a list \<Rightarrow> error + 'a" where
  "reduce f xs = (case xs of [] \<Rightarrow> Inl TypeError | x # ys \<Rightarrow> foldM f x ys)"

section \<open>Labelled arrays and tables\<close>

text \<open>
  The array and table library is external to the repository. A cell is a number, a text
  label or the missing value; numbers are the reals that the library's floating-point
  values denote. A table row maps column names to cells.

  A \<open>DataArray\<close> is a name, its dimensions in order and its values by position. A
  dimension carries an index of labels, or no coordinate and only a size. Coordinates
  that are not the index of a dimension are outside the model.
\<close>

datatype cell = Num real | Txt string | NA

type_synonym row = "(string \<times> cell) list"

record frame =
  columns :: "string list"
  rows :: "row list"

datatype index = Labels "cell list" | Positions nat

record dataarray =
  da_name :: "string option"
  da_dims :: "(string \<times> index) list"
  da_points :: "(nat list \<times> cell) list"

definition cell_of :: "row \<Rightarrow> string \<Rightarrow> cell" where
  "cell_of r c = (case map_of r c of Some v \<Rightarrow> v | None \<Rightarrow> NA)"

definition mk_row :: "string list \<Rightarrow> (string \<Rightarrow> cell) \<Rightarrow> row" where
  "mk_row cols f = map (\<lambda>c. (c, f c)) cols"

definition size_of :: "index \<Rightarrow> nat" where
  "size_of ix = (case ix of Labels ls \<Rightarrow> length ls | Positions n \<Rightarrow> n)"

text \<open>The label of a position; along a dimension without coordinate, the position itself.\<close>

definition label_at :: "index \<Rightarrow> nat \<Rightarrow> cell" where
  "label_at ix i = (case ix of Labels ls \<Rightarrow> ls ! i | Positions n \<Rightarrow> Num (real i))"

text \<open>All positions of an array, the last dimension running fastest.\<close>

definition positions :: "(string \<times> index) list \<Rightarrow> nat list list" where
  "positions dims = product_lists (map (\<lambda>(d, ix). [0..<size_of ix]) dims)"

definition value_at :: "dataarray \<Rightarrow> nat list \<Rightarrow> cell" where
  "value_at a pos = (case map_of (da_points a) pos of Some v \<Rightarrow> v | None \<Rightarrow> NA)"

text \<open>\<open>DataArray.rename(quantity)\<close>.\<close>

definition rename :: "string \<Rightarrow> dataarray \<Rightarrow> dataarray" where
  "rename quantity a = a\<lparr>da_name := Some quantity\<rparr>"

text \<open>
  \<open>DataArray.to_dataframe().reset_index()\<close>: one row per array element, the dimensions
  as columns followed by the column of values, which is named after the array. The library
  refuses an unnamed array and an array without dimension, and \<open>reset_index\<close> refuses to
  insert a dimension under the name the column of values already has.
\<close>

definition table_of :: "string \<Rightarrow> dataarray \<Rightarrow> frame" where
  "table_of n a =
     \<lparr>columns = map fst (da_dims a) @ [n],
      rows = map (\<lambda>pos. map (\<lambda>((d, ix), i). (d, label_at ix i)) (zip (da_dims a) pos) @
                          [(n, value_at a pos)])
                 (positions (da_dims a))\<rparr>"

definition to_dataframe :: "dataarray \<Rightarrow> error + frame" where
  "to_dataframe a =
     (case da_name a of
        None \<Rightarrow> Inl ValueError
      | Some n \<Rightarrow>
          if da_dims a = [] \<or> n \<in> set (map fst (da_dims a)) then Inl ValueError
          else Inr (table_of n a))"

subsection \<open>The container\<close>

text \<open>
  A \<open>Dataset\<close> is the dictionary of its data variables, which share the coordinates of
  the dimensions they have in common. \<open>Dataset.__setitem__\<close> aligns the new variable with
  the coordinates the container already has, dimension by dimension:
  \<^item> where both have labels, the new variable is reindexed onto the labels of the
    container (values under other labels are dropped, missing ones are filled with the
    missing value), which the library refuses when the two lists of labels differ and one
    of them has a label twice;
  \<^item> where one of the two has no coordinate, the sizes must agree, and the labels of the
    other are taken over;
  \<^item> where neither has a coordinate, the sizes must agree.
  A conflict of sizes raises \<open>ValueError\<close> and leaves the container as it was.
\<close>

type_synonym dataset = "(nat \<times> dataarray) list"

definition ds_dims :: "dataset \<Rightarrow> (string \<times> index) list" where
  "ds_dims ds = concat (map (\<lambda>(k, a). da_dims a) ds)"

fun position_of :: "'a \<Rightarrow> 'a list \<Rightarrow> nat option" where
  "position_of x [] = None"
| "position_of x (y # ys) = (if x = y then Some 0 else map_option Suc (position_of x ys))"

definition relabel :: "string \<Rightarrow> index \<Rightarrow> dataarray \<Rightarrow> dataarray" where
  "relabel d ix a = a\<lparr>da_dims := map (\<lambda>(n, i). if n = d then (n, ix) else (n, i)) (da_dims a)\<rparr>"

definition reindex :: "string \<Rightarrow> cell list \<Rightarrow> dataarray \<Rightarrow> dataarray" where
  "reindex d ls a =
     (case (position_of d (map fst (da_dims a)), map_of (da_dims a) d) of
        (Some k, Some old) \<Rightarrow>
          (let dims = map (\<lambda>(n, i). if n = d then (n, Labels ls) else (n, i)) (da_dims a)
           in a\<lparr>da_dims := dims,
                da_points := map (\<lambda>pos.
                  (pos, case position_of (ls ! (pos ! k)) (map (label_at old) [0..<size_of old]) of
                          None \<Rightarrow> NA
                        | Some i \<Rightarrow> value_at a (pos[k := i])))
                  (positions dims)\<rparr>)
      | _ \<Rightarrow> a)"

fun align_dim :: "dataset \<times> dataarray \<Rightarrow> string \<times> index \<Rightarrow> error + dataset \<times> dataarray" where
  "align_dim (ds, a) (d, iv) =
     (case map_of (ds_dims ds) d of
        None \<Rightarrow> Inr (ds, a)
      | Some (Labels ls) \<Rightarrow>
          (case iv of
             Labels ls' \<Rightarrow>
               if ls' = ls then Inr (ds, a)
               else if distinct ls' \<and> distinct ls then Inr (ds, reindex d ls a)
               else Inl ValueError
           | Positions m \<Rightarrow>
               if m = length ls then Inr (ds, relabel d (Labels ls) a) else Inl ValueError)
      | Some (Positions n) \<Rightarrow>
          (case iv of
             Positions m \<Rightarrow> if m = n then Inr (ds, a) else Inl ValueError
           | Labels ls' \<Rightarrow>
               if length ls' = n
               then Inr (map (\<lambda>(k, b). (k, relabel d (Labels ls') b)) ds, a)
               else Inl ValueError))"

definition dataset_setitem :: "dataset \<Rightarrow> nat \<Rightarrow> dataarray \<Rightarrow> error + dataset" where
  "dataset_setitem ds key val =
     (case foldM align_dim (ds, val) (da_dims val) of
        Inl e \<Rightarrow> Inl e
      | Inr (ds', val') \<Rightarrow> Inr (AList.update key val' ds'))"

subsection \<open>Tables\<close>

text \<open>
  \<open>pandas.DataFrame.merge(left, right, how="right")\<close> is the library's work, and the
  consolidation below takes it as a parameter: a function of the two tables that returns
  the merged table or raises.

  The reference right join on exact cells stands for it in the examples and in the default
  registry. It joins on the columns the two tables share. Every row of \<open>right\<close> is kept,
  in order: it is paired with each row of \<open>left\<close> that agrees with it on the shared
  columns, or padded with missing values when there is none. The columns of \<open>left\<close> come
  first. It fails when no column is shared. The checks and conversions that the library
  makes on the types of the key columns are outside the reference join.
\<close>

type_synonym merge = "frame \<Rightarrow> frame \<Rightarrow> error + frame"

definition common_columns :: "frame \<Rightarrow> frame \<Rightarrow> string list" where
  "common_columns left right = filter (\<lambda>c. c \<in> set (columns right)) (columns left)"

definition agree :: "string list \<Rightarrow> row \<Rightarrow> row \<Rightarrow> bool" where
  "agree on lr rr = list_all (\<lambda>c. cell_of lr c = cell_of rr c) on"

definition result_columns :: "frame \<Rightarrow> frame \<Rightarrow> string list" where
  "result_columns left right =
     columns left @ filter (\<lambda>c. c \<notin> set (columns left)) (columns right)"

text \<open>The rows of the result that one row of \<open>right\<close> gives.\<close>

definition joined_rows :: "frame \<Rightarrow> frame \<Rightarrow> row \<Rightarrow> row list" where
  "joined_rows left right rr =
     (let cols = result_columns left right;
          ms = filter (\<lambda>lr. agree (common_columns left right) lr rr) (rows left)
      in if ms = []
         then [mk_row cols (\<lambda>c. if c \<in> set (columns right) then cell_of rr c else NA)]
         else map (\<lambda>lr. mk_row cols
                (\<lambda>c. if c \<in> set (columns left) then cell_of lr c else cell_of rr c)) ms)"

definition right_join :: "frame \<Rightarrow> frame \<Rightarrow> frame" where
  "right_join left right =
     \<lparr>columns = result_columns left right,
      rows = concat (map (joined_rows left right) (rows right))\<rparr>"

definition merge_right :: merge where
  "merge_right left right =
     (if common_columns left right = [] then Inl MergeError else Inr (right_join left right))"

text \<open>\<open>data[data[quantity] != 0]\<close>: the rows whose value is not exactly zero.\<close>

definition without_zero :: "string \<Rightarrow> frame \<Rightarrow> frame" where
  "without_zero quantity data =
     data\<lparr>rows := filter (\<lambda>r. cell_of r quantity \<noteq> Num 0) (rows data)\<rparr>"

definition nonzero :: "string \<Rightarrow> frame \<Rightarrow> error + frame" where
  "nonzero quantity data =
     (if quantity \<in> set (columns data) then Inr (without_zero quantity data) else Inl KeyError)"

text \<open>
  \<open>data.agent == agent\<close>: the attribute access raises \<open>AttributeError\<close> when the table has
  no column of that name; the comparison gives one boolean per row.
\<close>

definition agent_filter :: "frame \<Rightarrow> string \<Rightarrow> error + bool list" where
  "agent_filter data agent =
     (if ''agent'' \<in> set (columns data)
      then Inr (map (\<lambda>r. cell_of r ''agent'' = Txt agent) (rows data))
      else Inl AttributeError)"

text \<open>
  \<open>data.loc[filter, key] = value\<close> with a scalar value. An existing column is overwritten
  in the selected rows. A missing column is created, holding the value in the selected rows
  and the missing value elsewhere; the library refuses to do so on a table without rows.
\<close>

definition loc_set :: "frame \<Rightarrow> bool list \<Rightarrow> string \<Rightarrow> string \<Rightarrow> error + frame" where
  "loc_set data flt key val =
     (if key \<in> set (columns data)
      then Inr (data\<lparr>rows := map (\<lambda>(b, r). if b then AList.update key (Txt val) r else r)
                                  (zip flt (rows data))\<rparr>)
      else if rows data = [] then Inl ValueError
      else Inr \<lparr>columns = columns data @ [key],
                rows = map (\<lambda>(b, r). if b then AList.update key (Txt val) r else r @ [(key, NA)])
                           (zip flt (rows data))\<rparr>)"

text \<open>\<open>data[sorted(data.columns)]\<close>. Python compares strings by code point.\<close>

definition sort_columns :: "frame \<Rightarrow> frame" where
  "sort_columns data =
     (let cols = sort (columns data)
      in \<lparr>columns = cols, rows = map (\<lambda>r. mk_row cols (cell_of r)) (rows data)\<rparr>)"

section \<open>Agent metadata\<close>

record agent =
  uuid :: string
  agent_name :: string
  category :: string

text \<open>
  A sector is read with \<open>getattr(sector, "name", "unnamed")\<close> and
  \<open>getattr(sector, "agents", [])\<close>: \<open>None\<close> is an attribute the object does not have.
\<close>

record sector =
  sector_name :: "string option"
  sector_agents :: "agent list option"

type_synonym info = "(string \<times> string) list"

type_synonym agent_layer = "(string \<times> info) list"

text \<open>A \<open>ChainMap\<close> is the list of its maps; a plain dictionary is a single map.\<close>

type_synonym agent_info = "agent_layer list"

definition getattr_name :: "sector \<Rightarrow> string" where
  "getattr_name s = (case sector_name s of None \<Rightarrow> ''unnamed'' | Some n \<Rightarrow> n)"

definition getattr_agents :: "sector \<Rightarrow> agent list" where
  "getattr_agents s = (case sector_agents s of None \<Rightarrow> [] | Some l \<Rightarrow> l)"

text \<open>
  \<open>extract_agents_internal\<close>: \<open>sorted\<close> is stable, and each agent overwrites the entry an
  earlier agent of the sector left under the same identifier.
\<close>

definition extract_agents_internal :: "sector \<Rightarrow> agent_layer" where
  "extract_agents_internal s =
     (let sname = getattr_name s;
          ags = sort_key agent_name (getattr_agents s)
      in fold (\<lambda>a inf. AList.update (uuid a)
                 [(''agent'', agent_name a), (''type'', category a), (''sector'', sname)] inf)
              ags [])"

text \<open>\<open>ChainMap(*maps)\<close>: without maps, it holds one empty dictionary.\<close>

definition ChainMap :: "agent_layer list \<Rightarrow> agent_info" where
  "ChainMap maps = (if maps = [] then [[]] else maps)"

definition extract_agents :: "sector list \<Rightarrow> agent_info" where
  "extract_agents sectors = ChainMap (map extract_agents_internal sectors)"

text \<open>\<open>ChainMap.__getitem__\<close>: the first map that has the key answers.\<close>

fun chain_lookup :: "agent_info \<Rightarrow> string \<Rightarrow> info option" where
  "chain_lookup [] k = None"
| "chain_lookup (m # ms) k =
     (case map_of m k of Some v \<Rightarrow> Some v | None \<Rightarrow> chain_lookup ms k)"

text \<open>
  \<open>list(ChainMap)\<close>: the keys of a dictionary that is updated with the maps from the last
  to the first, so a key stands where it was first inserted.
\<close>

definition add_keys :: "string list \<Rightarrow> string list \<Rightarrow> string list" where
  "add_keys ks d = fold (\<lambda>k d. if k \<in> set d then d else d @ [k]) ks d"

definition chain_keys :: "agent_info \<Rightarrow> string list" where
  "chain_keys maps = fold (\<lambda>m d. add_keys (map fst m) d) (rev maps) []"

section \<open>Consolidation of the cached capacity\<close>

text \<open>
  \<open>combine_arrays\<close>, with the library's right merge \<open>mrg\<close>: the lambda passes the
  accumulated table as \<open>left\<close> and the next entry as \<open>right\<close>.
\<close>

definition combine_arrays :: "merge \<Rightarrow> dataset \<Rightarrow> string \<Rightarrow> error + frame" where
  "combine_arrays mrg data quantity =
     (case mapM (\<lambda>(order, a). to_dataframe (rename quantity a)) data of
        Inl e \<Rightarrow> Inl e
      | Inr frames \<Rightarrow> reduce (\<lambda>left right. mrg left right) frames)"

text \<open>The inner loop \<open>for key, value in agents[agent].items()\<close>.\<close>

fun set_items :: "frame \<Rightarrow> bool list \<Rightarrow> info \<Rightarrow> error + frame" where
  "set_items data flt [] = Inr data"
| "set_items data flt ((key, val) # items) =
     (case loc_set data flt key val of
        Inl e \<Rightarrow> Inl e
      | Inr data' \<Rightarrow> set_items data' flt items)"

text \<open>The outer loop \<open>for agent in list(agents)\<close>, over the keys still to visit.\<close>

fun annotate :: "agent_info \<Rightarrow> frame \<Rightarrow> string list \<Rightarrow> error + frame" where
  "annotate ags data [] = Inr data"
| "annotate ags data (agent # rest) =
     (case agent_filter data agent of
        Inl e \<Rightarrow> Inl e
      | Inr flt \<Rightarrow>
          (case chain_lookup ags agent of
             None \<Rightarrow> Inl KeyError
           | Some items \<Rightarrow>
               (case set_items data flt items of
                  Inl e \<Rightarrow> Inl e
                | Inr data' \<Rightarrow> annotate ags data' rest)))"

definition capacity :: "merge \<Rightarrow> dataset \<Rightarrow> agent_info \<Rightarrow> error + frame" where
  "capacity mrg cached ags =
     (let quantity = ''capacity''
      in case combine_arrays mrg cached quantity of
           Inl e \<Rightarrow> Inl e
         | Inr merged \<Rightarrow>
             (case nonzero quantity merged of
                Inl e \<Rightarrow> Inl e
              | Inr data \<Rightarrow>
                  (case annotate ags data (chain_keys ags) of
                     Inl e \<Rightarrow> Inl e
                   | Inr data' \<Rightarrow> Inr (sort_columns data'))))"

text \<open>
  \<open>production\<close> and \<open>lcoe\<close> take one argument and are called with two: the call raises
  \<open>TypeError\<close> before their empty body runs.
\<close>

definition production :: "dataset \<Rightarrow> agent_info \<Rightarrow> error + frame" where
  "production cached ags = Inl TypeError"

definition lcoe :: "dataset \<Rightarrow> agent_info \<Rightarrow> error + frame" where
  "lcoe cached ags = Inl TypeError"

subsection \<open>The consolidated table in the words of the specification\<close>




section \<open>The registry and the output factory\<close>

text \<open>
  A registered quantity is called with the container, the agent record and the keyword
  arguments of its specification. The functions of this module take no keyword argument.
\<close>

type_synonym quantity_fn = "dataset \<Rightarrow> agent_info \<Rightarrow> error + frame"

type_synonym registry = "(string \<times> ((string \<times> string) list \<Rightarrow> quantity_fn)) list"

definition positional :: "quantity_fn \<Rightarrow> (string \<times> string) list \<Rightarrow> quantity_fn" where
  "positional f kwargs = (if kwargs = [] then f else (\<lambda>cached ags. Inl TypeError))"

text \<open>
  Modelled from the spec: the decorator \<open>registrator\<close> of \<open>muse.registration\<close> is not among
  the sources. By section 4.1 of the specification it adds each decorated function to the
  registry under the function's own name. The reference right join stands for the
  library's merge.
\<close>

definition OUTPUT_QUANTITIES :: registry where
  "OUTPUT_QUANTITIES =
     [(''capacity'', positional (capacity merge_right)),
      (''production'', positional production),
      (''lcoe'', positional lcoe)]"

text \<open>
  An output parameter is a lone string or a mapping; the value under \<open>quantity\<close> is a
  string or a mapping with a \<open>name\<close> and keyword arguments.
\<close>

datatype pvalue = PStr string | PDict "(string \<times> string) list"

datatype parameter = Lone string | Mapping "(string \<times> pvalue) list"

text \<open>
  A sink persists a table for a year or raises (\<open>Some\<close> error). The sink factory of
  \<open>muse.outputs.sinks\<close> is an external collaborator and a parameter of the model. The
  tables that sinks have persisted are recorded in a log.
\<close>

type_synonym sink = "frame \<Rightarrow> int \<Rightarrow> error option"

type_synonym sink_factory = "(string \<times> pvalue) list \<Rightarrow> string \<Rightarrow> error + sink"

type_synonym sink_log = "(frame \<times> int) list"

record saver =
  quantities :: "quantity_fn list"
  sinks :: "sink list"

text \<open>
  \<open>_quantity_factory\<close>. Its caller in the cache always passes a registry, so the default
  taken when \<open>registry is None\<close> is left out.
\<close>

definition quantity_factory :: "(string \<times> pvalue) list \<Rightarrow> registry \<Rightarrow> error + quantity_fn" where
  "quantity_factory parameters reg =
     (case map_of parameters ''quantity'' of
        None \<Rightarrow> Inl KeyError
      | Some (PDict params) \<Rightarrow>
          (case map_of params ''name'' of
             None \<Rightarrow> Inl KeyError
           | Some quantity \<Rightarrow>
               (case map_of reg quantity of
                  None \<Rightarrow> Inl KeyError
                | Some f \<Rightarrow> Inr (f (AList.delete ''name'' params))))
      | Some (PStr quantity) \<Rightarrow>
          (case map_of reg quantity of
             None \<Rightarrow> Inl KeyError
           | Some f \<Rightarrow> Inr (f [])))"

text \<open>
  \<open>_factory(registry, *parameters, sector_name)\<close>: \<open>parameters\<close> is a tuple, so the third
  branch is the one taken, and a lone string becomes \<open>{"quantity": string}\<close>.
\<close>

definition factory_impl :: "registry \<Rightarrow> sink_factory \<Rightarrow> parameter list \<Rightarrow> string \<Rightarrow> error + saver" where
  "factory_impl reg sink_fac parameters sname =
     (let params = map (\<lambda>o'. case o' of Lone s \<Rightarrow> [(''quantity'', PStr s)] | Mapping m \<Rightarrow> m)
                       parameters
      in case mapM (\<lambda>param. quantity_factory param reg) params of
           Inl e \<Rightarrow> Inl e
         | Inr qs \<Rightarrow>
             (case mapM (\<lambda>param. sink_fac param sname) params of
                Inl e \<Rightarrow> Inl e
              | Inr ss \<Rightarrow> Inr \<lparr>quantities = qs, sinks = ss\<rparr>))"

text \<open>
  The closure \<open>save_multiple_outputs(market, *args, year=None)\<close>, called by the cache with
  the container as \<open>market\<close> and the agent record as \<open>args\<close>. Reading
  \<open>int(market.year.min())\<close> off the container is the library's work: \<open>year_of\<close> is a
  parameter, and it may raise.
\<close>

fun run_outputs ::
  "dataset \<Rightarrow> agent_info \<Rightarrow> int \<Rightarrow> (quantity_fn \<times> sink) list \<Rightarrow> sink_log \<Rightarrow> error option \<times> sink_log"
where
  "run_outputs market ags year [] w = (None, w)"
| "run_outputs market ags year ((quantity, snk) # rest) w =
     (case quantity market ags of
        Inl e \<Rightarrow> (Some e, w)
      | Inr table \<Rightarrow>
          (case snk table year of
             Some e \<Rightarrow> (Some e, w)
           | None \<Rightarrow> run_outputs market ags year rest (w @ [(table, year)])))"

definition save_multiple_outputs ::
  "(dataset \<Rightarrow> error + int) \<Rightarrow> saver \<Rightarrow> dataset \<Rightarrow> agent_info \<Rightarrow> sink_log \<Rightarrow> error option \<times> sink_log"
where
  "save_multiple_outputs year_of sv market ags w =
     (case year_of market of
        Inl e \<Rightarrow> (Some e, w)
      | Inr year \<Rightarrow> run_outputs market ags year (zip (quantities sv) (sinks sv)) w)"

section \<open>The output cache\<close>

text \<open>\<open>p["quantity"]\<close>: a string cannot be indexed by a string, a mapping may lack the key.\<close>

definition getitem_quantity :: "parameter \<Rightarrow> error + pvalue" where
  "getitem_quantity p =
     (case p of
        Lone s \<Rightarrow> Inl TypeError
      | Mapping m \<Rightarrow> (case map_of m ''quantity'' of None \<Rightarrow> Inl KeyError | Some v \<Rightarrow> Inr v))"

text \<open>\<open>p["quantity"] in d\<close> for a dictionary with the keys \<open>ks\<close>: a mapping is not hashable.\<close>

definition quantity_in :: "parameter \<Rightarrow> string list \<Rightarrow> error + (string \<times> bool)" where
  "quantity_in p ks =
     (case getitem_quantity p of
        Inl e \<Rightarrow> Inl e
      | Inr (PDict d) \<Rightarrow> Inl TypeError
      | Inr (PStr q) \<Rightarrow> Inr (q, q \<in> set ks))"

text \<open>The two dictionary comprehensions of \<open>OutputCache.__init__\<close>.\<close>

fun build_to_save ::
  "registry \<Rightarrow> parameter list \<Rightarrow> (string \<times> dataset) list \<Rightarrow> error + (string \<times> dataset) list"
where
  "build_to_save reg [] acc = Inr acc"
| "build_to_save reg (p # ps) acc =
     (case quantity_in p (map fst reg) of
        Inl e \<Rightarrow> Inl e
      | Inr (q, b) \<Rightarrow> build_to_save reg ps (if b then AList.update q [] acc else acc))"

fun build_factory ::
  "registry \<Rightarrow> sink_factory \<Rightarrow> string list \<Rightarrow> parameter list \<Rightarrow> (string \<times> saver) list
     \<Rightarrow> error + (string \<times> saver) list"
where
  "build_factory reg sink_fac ks [] acc = Inr acc"
| "build_factory reg sink_fac ks (p # ps) acc =
     (case quantity_in p ks of
        Inl e \<Rightarrow> Inl e
      | Inr (q, b) \<Rightarrow>
          (if b
           then (case factory_impl reg sink_fac [p] ''Cache'' of
                   Inl e \<Rightarrow> Inl e
                 | Inr sv \<Rightarrow> build_factory reg sink_fac ks ps (AList.update q sv acc))
           else build_factory reg sink_fac ks ps acc))"

record output_cache =
  agents :: agent_info
  to_save :: "(string \<times> dataset) list"
  factory :: "(string \<times> saver) list"

text \<open>
  \<open>OutputCache.__init__\<close>. The subscription to the topic of the event bus makes every
  published event a call of \<open>cache\<close>; the bus itself is external.
\<close>

definition OutputCache_init ::
  "sink_factory \<Rightarrow> parameter list \<Rightarrow> registry option \<Rightarrow> sector list option \<Rightarrow> error + output_cache"
where
  "OutputCache_init sink_fac parameters output_quantities sectors =
     (let reg = (case output_quantities of None \<Rightarrow> OUTPUT_QUANTITIES | Some r \<Rightarrow> r);
          ags = (case sectors of None \<Rightarrow> [[]] | Some l \<Rightarrow> extract_agents l)
      in case build_to_save reg parameters [] of
           Inl e \<Rightarrow> Inl e
         | Inr ts \<Rightarrow>
             (case build_factory reg sink_fac (map fst ts) parameters [] of
                Inl e \<Rightarrow> Inl e
              | Inr fc \<Rightarrow> Inr \<lparr>agents = ags, to_save = ts, factory = fc\<rparr>))"

text \<open>
  \<open>OutputCache.cache\<close>. No key of \<open>to_save\<close> is \<open>None\<close>, so a missing name is not found.
  The insertion into the container may raise; the object is then as it was before the call.
\<close>

definition cache :: "output_cache \<Rightarrow> dataarray \<Rightarrow> string option \<Rightarrow> error + output_cache" where
  "cache self data quantity =
     (case (case quantity of Some q \<Rightarrow> Some q | None \<Rightarrow> da_name data) of
        None \<Rightarrow> Inr self
      | Some q \<Rightarrow>
          (case map_of (to_save self) q of
             None \<Rightarrow> Inr self
           | Some ds \<Rightarrow>
               (let order = length ds
                in case dataset_setitem ds order (rename q data) of
                     Inl e \<Rightarrow> Inl e
                   | Inr ds' \<Rightarrow> Inr (self\<lparr>to_save := AList.update q ds' (to_save self)\<rparr>))))"

text \<open>A sequence of published events, in order, up to the first call that raises.\<close>

fun cache_all :: "output_cache \<Rightarrow> (dataarray \<times> string option) list \<Rightarrow> error + output_cache" where
  "cache_all self [] = Inr self"
| "cache_all self ((data, quantity) # calls) =
     (case cache self data quantity of
        Inl e \<Rightarrow> Inl e
      | Inr self' \<Rightarrow> cache_all self' calls)"

text \<open>
  \<open>OutputCache.consolidate_cache\<close>: the loop over \<open>self.to_save.items()\<close>, then the reset.
  The result is the exception, if any, the object as the call leaves it and the log.
\<close>

fun flush ::
  "(dataset \<Rightarrow> error + int) \<Rightarrow> output_cache \<Rightarrow> (string \<times> dataset) list \<Rightarrow> sink_log
     \<Rightarrow> error option \<times> sink_log"
where
  "flush year_of self [] w = (None, w)"
| "flush year_of self ((quantity, cch) # items) w =
     (if length cch = 0 then flush year_of self items w
      else (case map_of (factory self) quantity of
              None \<Rightarrow> (Some KeyError, w)
            | Some sv \<Rightarrow>
                (case save_multiple_outputs year_of sv cch (agents self) w of
                   (Some e, w') \<Rightarrow> (Some e, w')
                 | (None, w') \<Rightarrow> flush year_of self items w')))"

definition consolidate_cache ::
  "(dataset \<Rightarrow> error + int) \<Rightarrow> output_cache \<Rightarrow> sink_log \<Rightarrow> error option \<times> output_cache \<times> sink_log"
where
  "consolidate_cache year_of self w =
     (case flush year_of self (to_save self) w of
        (Some e, w') \<Rightarrow> (Some e, self, w')
      | (None, w') \<Rightarrow>
          (None,
           self\<lparr>to_save := fold (\<lambda>q d. AList.update q [] d) (map fst (to_save self)) []\<rparr>,
           w'))"

section \<open>Concrete inputs\<close>

text \<open>
  Sink factories whose sinks always persist, or always fail, and a reader of the year for
  containers whose arrays carry labelled years (\<open>int(market.year.min())\<close>).
\<close>

definition always_ok :: sink_factory where
  "always_ok param sname = Inr (\<lambda>table year. None)"

definition disk_full :: sink_factory where
  "disk_full param sname = Inr (\<lambda>table year. Some (IOError ''disk full''))"

definition labelled_year :: "dataset \<Rightarrow> error + int" where
  "labelled_year market =
     (case map_of (ds_dims market) ''year'' of
        Some (Labels (Num y # ls)) \<Rightarrow> Inr \<lfloor>fold min [x. Num x \<leftarrow> ls] y\<rfloor>
      | _ \<Rightarrow> Inl AttributeError)"

definition installed :: dataarray where
  "installed =
     \<lparr>da_name = Some ''installed'',
      da_dims = [(''agent'', Labels [Txt ''u1'', Txt ''u2'']), (''year'', Labels [Num 2020])],
      da_points = [([0, 0], Num 5), ([1, 0], Num 0)]\<rparr>"



definition unnamed_array :: dataarray where
  "unnamed_array =
     \<lparr>da_name = None, da_dims = [(''agent'', Labels [Txt ''u1''])], da_points = [([0], Num 7)]\<rparr>"

definition capacity_array :: dataarray where
  "capacity_array =
     \<lparr>da_name = Some ''capacity'', da_dims = [(''agent'', Labels [Txt ''u1''])],
      da_points = [([0], Num 9)]\<rparr>"




definition power :: sector where
  "power =
     \<lparr>sector_name = Some ''power'',
      sector_agents = Some [\<lparr>uuid = ''X'', agent_name = ''B2'', category = ''retrofit''\<rparr>,
                            \<lparr>uuid = ''Y'', agent_name = ''A1'', category = ''newcapa''\<rparr>]\<rparr>"

definition gas :: sector where
  "gas =
     \<lparr>sector_name = None,
      sector_agents = Some [\<lparr>uuid = ''X'', agent_name = ''G1'', category = ''newcapa''\<rparr>,
                            \<lparr>uuid = ''Z'', agent_name = ''G2'', category = ''retrofit''\<rparr>]\<rparr>"

definition clashing :: sector where
  "clashing =
     \<lparr>sector_name = Some ''heat'',
      sector_agents = Some [\<lparr>uuid = ''u1'', agent_name = ''u2'', category = ''c1''\<rparr>,
                            \<lparr>uuid = ''u2'', agent_name = ''v'', category = ''c2''\<rparr>]\<rparr>"

definition spec_of :: "string \<Rightarrow> parameter" where
  "spec_of q = Mapping [(''quantity'', PStr q)]"

definition capacity_cache :: output_cache where
  "capacity_cache =
     \<lparr>agents = [[]],
      to_save = [(''capacity'', [])],
      factory = [(''capacity'',
        \<lparr>quantities = [capacity merge_right], sinks = [\<lambda>table year. None]\<rparr>)]\<rparr>"

definition three_quantities :: output_cache where
  "three_quantities =
     \<lparr>agents = [[]],
      to_save = [(''capacity'', [(0, rename ''capacity'' installed)]),
                 (''production'', [(0, rename ''production'' installed)]),
                 (''lcoe'', [(0, rename ''lcoe'' installed)])],
      factory = [(''capacity'',
                  \<lparr>quantities = [capacity merge_right], sinks = [\<lambda>table year. None]\<rparr>),
                 (''production'', \<lparr>quantities = [production], sinks = [\<lambda>table year. None]\<rparr>),
                 (''lcoe'', \<lparr>quantities = [lcoe], sinks = [\<lambda>table year. None]\<rparr>)]\<rparr>"

definition broken_disk :: output_cache where
  "broken_disk =
     \<lparr>agents = [[]],
      to_save = [(''capacity'', [(0, rename ''capacity'' installed)])],
      factory = [(''capacity'',
        \<lparr>quantities = [capacity merge_right],
         sinks = [\<lambda>table year. Some (IOError ''disk full'')]\<rparr>)]\<rparr>"


section \<open>Caching\<close>

lemma set_update_cases:
  "(k', v') \<in> set (AList.update k v al) \<Longrightarrow> (k', v') = (k, v) \<or> (k', v') \<in> set al"
  by (induction al) (auto split: if_splits)

lemma quantity_in_member:
  "quantity_in p ks = Inr (q, b) \<Longrightarrow> b = (q \<in> set ks)"
  by (auto simp: quantity_in_def split: sum.splits pvalue.splits)







lemma capacity_cache_init:
  "OutputCache_init always_ok [spec_of ''capacity''] None None = Inr capacity_cache"
  by (simp add: OutputCache_init_def OUTPUT_QUANTITIES_def spec_of_def quantity_in_def
      getitem_quantity_def factory_impl_def quantity_factory_def always_ok_def positional_def
      capacity_cache_def)




text \<open>
  Claim C6. \<open>cache(data, q)\<close> for a quantity \<open>q\<close> that has no container returns
  normally and leaves the object, hence every container, as it was.
\<close>

theorem cache_unconfigured_noop:
  "q \<notin> fst ` set (to_save self) \<Longrightarrow> cache self data (Some q) = Inr self"
proof -
  assume "q \<notin> fst ` set (to_save self)"
  then have "map_of (to_save self) q = None"
    by (simp add: map_of_eq_None_iff)
  then show ?thesis
    by (simp add: cache_def)
qed

theorem cache_unconfigured_noop_witness:
  "''lcoe'' \<notin> fst ` set (to_save capacity_cache) \<and>
   cache capacity_cache installed (Some ''lcoe'') = Inr capacity_cache"
  using cache_unconfigured_noop [of "''lcoe''" capacity_cache installed]
  by (simp add: capacity_cache_def)

text \<open>
  Claim C9 says that \<open>cache(data)\<close> without a quantity, on a payload without a name, fails
  with an error. The code looks the missing name up among the containers, does not find it
  and returns: the call succeeds silently.
\<close>

theorem cache_missing_name_counterexample:
  "cache capacity_cache unnamed_array None = Inr capacity_cache \<and>
   \<not> (\<exists>e. cache capacity_cache unnamed_array None = Inl e)"
  by (simp add: cache_def unnamed_array_def)

text \<open>
  Claim C9, amended. \<open>cache(data)\<close> without a quantity, on a payload without a name,
  returns normally and leaves the object as it was.
\<close>

theorem cache_missing_name_noop:
  "da_name data = None \<Longrightarrow> cache self data None = Inr self"
  by (simp add: cache_def)

theorem cache_missing_name_noop_witness:
  "da_name unnamed_array = None \<and> cache three_quantities unnamed_array None = Inr three_quantities"
  using cache_missing_name_noop [of unnamed_array three_quantities]
  by (simp add: unnamed_array_def)

section \<open>Consolidation\<close>

lemma flush_append:
  "flush year_of self (xs @ ys) w =
     (case flush year_of self xs w of
        (Some e, w') \<Rightarrow> (Some e, w')
      | (None, w') \<Rightarrow> flush year_of self ys w')"
  by (induction xs arbitrary: w) (auto split: option.splits prod.splits)

lemma reset_keys:
  "fst ` set (fold (\<lambda>q d. AList.update q v d) ks acc) = fst ` set acc \<union> set ks"
  by (induction ks arbitrary: acc) (auto simp: dom_update)

lemma reset_values:
  "(k, x) \<in> set (fold (\<lambda>q d. AList.update q v d) ks acc) \<Longrightarrow> x = v \<or> (k, x) \<in> set acc"
  by (induction ks arbitrary: acc) (auto dest: set_update_cases)

lemma consolidate_keys:
  "fst ` set (to_save (fst (snd (consolidate_cache year_of self w)))) = fst ` set (to_save self)"
  by (auto simp: consolidate_cache_def reset_keys split: prod.splits option.splits)

lemma capacity_installed:
  "capacity merge_right [(0, rename ''capacity'' installed)] [[]] =
     Inr \<lparr>columns = [''agent'', ''capacity'', ''year''],
          rows = [[(''agent'', Txt ''u1''), (''capacity'', Num 5), (''year'', Num 2020)]]\<rparr>"
  by code_simp

lemma year_installed:
  "labelled_year [(0, rename q installed)] = Inr 2020"
  by (simp add: labelled_year_def ds_dims_def rename_def installed_def)

text \<open>
  Claim C2. When \<open>consolidate_cache\<close> returns without raising, every container of the
  object is empty, whatever it held, and the configured quantities are the same as before.
\<close>

theorem consolidate_empties:
  assumes "consolidate_cache year_of self w = (None, self', w')"
  shows "(\<forall>(q, ds) \<in> set (to_save self'). length ds = 0) \<and>
         fst ` set (to_save self') = fst ` set (to_save self)"
proof -
  have ts: "to_save self' = fold (\<lambda>q d. AList.update q [] d) (map fst (to_save self)) []"
    using assms by (auto simp: consolidate_cache_def split: prod.splits option.splits)
  have "\<forall>(q, ds) \<in> set (to_save self'). ds = []"
    unfolding ts using reset_values [of _ _ "[]" "map fst (to_save self)" "[]"] by auto
  moreover have "fst ` set (to_save self') = fst ` set (to_save self)"
    unfolding ts by (simp add: reset_keys)
  ultimately show ?thesis by auto
qed

theorem consolidate_empties_witness:
  "consolidate_cache labelled_year (capacity_cache\<lparr>to_save := [(''capacity'', [(0, rename ''capacity'' installed)])]\<rparr>) [] =
     (None, capacity_cache,
      [(\<lparr>columns = [''agent'', ''capacity'', ''year''],
         rows = [[(''agent'', Txt ''u1''), (''capacity'', Num 5), (''year'', Num 2020)]]\<rparr>,
        2020)]) \<and>
   map (\<lambda>(q, ds). length ds) (to_save capacity_cache) = [0] \<and>
   fst ` set (to_save capacity_cache) = {''capacity''}"
proof -
  have run: "consolidate_cache labelled_year
      (capacity_cache\<lparr>to_save := [(''capacity'', [(0, rename ''capacity'' installed)])]\<rparr>) [] =
     (None, capacity_cache,
      [(\<lparr>columns = [''agent'', ''capacity'', ''year''],
         rows = [[(''agent'', Txt ''u1''), (''capacity'', Num 5), (''year'', Num 2020)]]\<rparr>,
        2020)])"
    by (simp add: consolidate_cache_def capacity_cache_def save_multiple_outputs_def
        year_installed capacity_installed)
  from consolidate_empties [OF run] show ?thesis
    using run by (simp add: capacity_cache_def)
qed

text \<open>
  Claim C7. Let the containers be \<open>pre\<close>, then the container of \<open>q\<close>, then \<open>post\<close>, in
  iteration order. If the flushes of \<open>pre\<close> succeed and the flush of the non-empty
  container of \<open>q\<close> raises \<open>e\<close> (in the post-processing, the reading of the year or the
  sink), then \<open>consolidate_cache\<close> raises \<open>e\<close>, the object is left as it was, with all
  entries of all containers, and the log of persisted tables is the one the failing flush
  left: nothing of \<open>post\<close> is flushed.
\<close>

theorem consolidate_error_keeps_entries:
  assumes "to_save self = pre @ (q, cch) # post"
    and "flush year_of self pre w = (None, w1)"
    and "cch \<noteq> []"
    and "map_of (factory self) q = Some sv"
    and "save_multiple_outputs year_of sv cch (agents self) w1 = (Some e, w2)"
  shows "consolidate_cache year_of self w = (Some e, self, w2)"
proof -
  have "flush year_of self ((q, cch) # post) w1 = (Some e, w2)"
    using assms(3-5) by simp
  then have "flush year_of self (to_save self) w = (Some e, w2)"
    using assms(1,2) by (simp add: flush_append)
  then show ?thesis
    by (simp add: consolidate_cache_def)
qed

theorem consolidate_error_keeps_entries_witness:
  "(\<exists>s. OutputCache_init always_ok
          [spec_of ''capacity'', spec_of ''production'', spec_of ''lcoe''] None None = Inr s \<and>
        cache_all s [(installed, Some ''capacity''), (installed, Some ''production''),
          (installed, Some ''lcoe'')] = Inr three_quantities) \<and>
   consolidate_cache labelled_year three_quantities [] =
     (Some TypeError, three_quantities,
      [(\<lparr>columns = [''agent'', ''capacity'', ''year''],
         rows = [[(''agent'', Txt ''u1''), (''capacity'', Num 5), (''year'', Num 2020)]]\<rparr>,
        2020)]) \<and>
   (\<exists>s. OutputCache_init disk_full [spec_of ''capacity''] None None = Inr s \<and>
        cache_all s [(installed, Some ''capacity'')] = Inr broken_disk) \<and>
   consolidate_cache labelled_year broken_disk [] = (Some (IOError ''disk full''), broken_disk, [])"
proof -
  let ?w1 = "[(\<lparr>columns = [''agent'', ''capacity'', ''year''],
                rows = [[(''agent'', Txt ''u1''), (''capacity'', Num 5), (''year'', Num 2020)]]\<rparr>,
               2020::int)]"
  have a: "to_save three_quantities =
      [(''capacity'', [(0, rename ''capacity'' installed)])] @
      (''production'', [(0, rename ''production'' installed)]) #
      [(''lcoe'', [(0, rename ''lcoe'' installed)])]"
    by (simp add: three_quantities_def)
  have b: "flush labelled_year three_quantities [(''capacity'', [(0, rename ''capacity'' installed)])] [] =
      (None, ?w1)"
    by (simp add: three_quantities_def save_multiple_outputs_def year_installed capacity_installed)
  have c: "[(0, rename ''production'' installed)] \<noteq> []"
    by simp
  have d: "map_of (factory three_quantities) ''production'' =
      Some \<lparr>quantities = [production], sinks = [\<lambda>table year. None]\<rparr>"
    by (simp add: three_quantities_def)
  have e: "save_multiple_outputs labelled_year \<lparr>quantities = [production], sinks = [\<lambda>table year. None]\<rparr>
      [(0, rename ''production'' installed)] (agents three_quantities) ?w1 = (Some TypeError, ?w1)"
    by (simp add: save_multiple_outputs_def year_installed production_def)
  have first: "consolidate_cache labelled_year three_quantities [] =
      (Some TypeError, three_quantities, ?w1)"
    using consolidate_error_keeps_entries [OF a b c d e] .
  have a': "to_save broken_disk = [] @ (''capacity'', [(0, rename ''capacity'' installed)]) # []"
    by (simp add: broken_disk_def)
  have b': "flush labelled_year broken_disk [] [] = (None, [])"
    by simp
  have c': "[(0, rename ''capacity'' installed)] \<noteq> []"
    by simp
  have d': "map_of (factory broken_disk) ''capacity'' =
      Some \<lparr>quantities = [capacity merge_right], sinks = [\<lambda>table year. Some (IOError ''disk full'')]\<rparr>"
    by (simp add: broken_disk_def)
  have e': "save_multiple_outputs labelled_year
      \<lparr>quantities = [capacity merge_right], sinks = [\<lambda>table year. Some (IOError ''disk full'')]\<rparr>
      [(0, rename ''capacity'' installed)] (agents broken_disk) [] =
      (Some (IOError ''disk full''), [])"
    by (simp add: save_multiple_outputs_def year_installed broken_disk_def capacity_installed)
  have second: "consolidate_cache labelled_year broken_disk [] =
      (Some (IOError ''disk full''), broken_disk, [])"
    using consolidate_error_keeps_entries [OF a' b' c' d' e'] .
  have r1: "OutputCache_init always_ok
      [spec_of ''capacity'', spec_of ''production'', spec_of ''lcoe''] None None =
      Inr (three_quantities\<lparr>to_save := [(''capacity'', []), (''production'', []), (''lcoe'', [])]\<rparr>)"
    by (simp add: OutputCache_init_def OUTPUT_QUANTITIES_def spec_of_def quantity_in_def
        getitem_quantity_def factory_impl_def quantity_factory_def always_ok_def positional_def
        three_quantities_def)
  have r2: "cache_all
      (three_quantities\<lparr>to_save := [(''capacity'', []), (''production'', []), (''lcoe'', [])]\<rparr>)
      [(installed, Some ''capacity''), (installed, Some ''production''),
       (installed, Some ''lcoe'')] = Inr three_quantities"
    by (simp add: cache_def three_quantities_def dataset_setitem_def rename_def installed_def
        ds_dims_def)
  have r3: "OutputCache_init disk_full [spec_of ''capacity''] None None =
      Inr (broken_disk\<lparr>to_save := [(''capacity'', [])]\<rparr>)"
    by (simp add: OutputCache_init_def OUTPUT_QUANTITIES_def spec_of_def quantity_in_def
        getitem_quantity_def factory_impl_def quantity_factory_def disk_full_def positional_def
        broken_disk_def)
  have r4: "cache_all (broken_disk\<lparr>to_save := [(''capacity'', [])]\<rparr>)
      [(installed, Some ''capacity'')] = Inr broken_disk"
    by (simp add: cache_def broken_disk_def dataset_setitem_def rename_def installed_def
        ds_dims_def)
  from first second r1 r2 r3 r4 show ?thesis
    by simp
qed

section \<open>Construction\<close>

lemma build_to_save_keys:
  "build_to_save reg ps acc = Inr ts \<Longrightarrow> fst ` set ts \<subseteq> fst ` set acc \<union> fst ` set reg"
proof (induction ps arbitrary: acc)
  case Nil
  then show ?case by auto
next
  case (Cons p ps)
  from Cons.prems obtain q b where qb: "quantity_in p (map fst reg) = Inr (q, b)"
    and rest: "build_to_save reg ps (if b then AList.update q [] acc else acc) = Inr ts"
    by (auto split: sum.splits)
  have "b \<Longrightarrow> q \<in> fst ` set reg"
    using quantity_in_member [OF qb] by simp
  moreover have "fst ` set ts \<subseteq> fst ` set (if b then AList.update q [] acc else acc) \<union> fst ` set reg"
    using Cons.IH [OF rest] .
  ultimately show ?case
    by (auto simp: dom_update split: if_splits)
qed

lemma build_factory_keys:
  "build_factory reg sf ks ps acc = Inr fc \<Longrightarrow> fst ` set fc \<subseteq> fst ` set acc \<union> set ks"
proof (induction ps arbitrary: acc)
  case Nil
  then show ?case by auto
next
  case (Cons p ps)
  from Cons.prems obtain q b where qb: "quantity_in p ks = Inr (q, b)"
    by (auto split: sum.splits)
  have mem: "b \<Longrightarrow> q \<in> set ks"
    using quantity_in_member [OF qb] by simp
  show ?case
  proof (cases b)
    case True
    with Cons.prems qb obtain sv where
      rest: "build_factory reg sf ks ps (AList.update q sv acc) = Inr fc"
      by (auto split: sum.splits)
    from Cons.IH [OF rest] mem True show ?thesis
      by (auto simp: dom_update)
  next
    case False
    with Cons.prems qb have "build_factory reg sf ks ps acc = Inr fc"
      by simp
    from Cons.IH [OF this] show ?thesis .
  qed
qed

lemma build_to_save_skip:
  assumes "map_of m ''quantity'' = Some (PStr q)" and "q \<notin> fst ` set reg"
  shows "build_to_save reg (ps1 @ Mapping m # ps2) acc = build_to_save reg (ps1 @ ps2) acc"
proof (induction ps1 arbitrary: acc)
  case Nil
  show ?case using assms by (simp add: quantity_in_def getitem_quantity_def)
next
  case (Cons p ps1)
  then show ?case by (simp split: sum.splits prod.splits)
qed

lemma build_factory_skip:
  assumes "map_of m ''quantity'' = Some (PStr q)" and "q \<notin> set ks"
  shows "build_factory reg sf ks (ps1 @ Mapping m # ps2) acc =
         build_factory reg sf ks (ps1 @ ps2) acc"
proof (induction ps1 arbitrary: acc)
  case Nil
  show ?case using assms by (simp add: quantity_in_def getitem_quantity_def)
next
  case (Cons p ps1)
  then show ?case by (simp split: sum.splits prod.splits)
qed

lemma init_skip:
  assumes "map_of m ''quantity'' = Some (PStr q)"
    and "q \<notin> fst ` set (case regs of None \<Rightarrow> OUTPUT_QUANTITIES | Some r \<Rightarrow> r)"
  shows "OutputCache_init sf (ps1 @ Mapping m # ps2) regs sectors =
         OutputCache_init sf (ps1 @ ps2) regs sectors"
proof -
  let ?reg = "case regs of None \<Rightarrow> OUTPUT_QUANTITIES | Some r \<Rightarrow> r"
  have a: "build_to_save ?reg (ps1 @ Mapping m # ps2) [] = build_to_save ?reg (ps1 @ ps2) []"
    using assms by (rule build_to_save_skip)
  have b: "build_factory ?reg sf (map fst ts) (ps1 @ Mapping m # ps2) [] =
        build_factory ?reg sf (map fst ts) (ps1 @ ps2) []"
    if "build_to_save ?reg (ps1 @ ps2) [] = Inr ts" for ts
  proof -
    have "q \<notin> set (map fst ts)"
      using build_to_save_keys [OF that] assms(2) by auto
    with assms(1) show ?thesis by (rule build_factory_skip)
  qed
  show ?thesis
    unfolding OutputCache_init_def Let_def a
    by (auto split: sum.splits simp: b)
qed

lemma init_keys:
  assumes "OutputCache_init sf ps regs sectors = Inr self"
  shows "fst ` set (to_save self) \<subseteq>
           fst ` set (case regs of None \<Rightarrow> OUTPUT_QUANTITIES | Some r \<Rightarrow> r)"
    and "fst ` set (factory self) \<subseteq> fst ` set (to_save self)"
proof -
  let ?reg = "case regs of None \<Rightarrow> OUTPUT_QUANTITIES | Some r \<Rightarrow> r"
  from assms obtain ts fc where ts: "build_to_save ?reg ps [] = Inr ts"
    and fc: "build_factory ?reg sf (map fst ts) ps [] = Inr fc"
    and self: "to_save self = ts" "factory self = fc"
    by (auto simp: OutputCache_init_def Let_def split: sum.splits)
  show "fst ` set (to_save self) \<subseteq> fst ` set ?reg"
    using build_to_save_keys [OF ts] self by auto
  show "fst ` set (factory self) \<subseteq> fst ` set (to_save self)"
    using build_factory_keys [OF fc] self by auto
qed

text \<open>
  Claim C8 says that a specification whose quantity is not in the registry is ignored
  without an error. The constructor does so for a mapping whose \<open>quantity\<close> is a string.
  It indexes every specification with \<open>"quantity"\<close> and looks the value up in the registry:
  a bare string cannot be indexed and a value that is itself a mapping cannot be hashed, so
  both raise \<open>TypeError\<close>, here for the name \<open>prices\<close>, which is not registered.
\<close>

theorem unregistered_quantity_counterexample:
  "''prices'' \<notin> fst ` set OUTPUT_QUANTITIES \<and>
   OutputCache_init always_ok [Lone ''prices''] None None = Inl TypeError \<and>
   OutputCache_init always_ok [Mapping [(''quantity'', PDict [(''name'', ''prices'')])]]
     None None = Inl TypeError \<and>
   \<not> (\<exists>self. OutputCache_init always_ok [Lone ''prices''] None None = Inr self) \<and>
   \<not> (\<exists>self. OutputCache_init always_ok
          [Mapping [(''quantity'', PDict [(''name'', ''prices'')])]] None None = Inr self)"
  by (simp add: OUTPUT_QUANTITIES_def OutputCache_init_def quantity_in_def getitem_quantity_def)

text \<open>
  Claim C8, amended. A mapping whose \<open>quantity\<close> is a string \<open>q\<close> that is not in the
  registry changes nothing in the construction: the outcome is the one of the
  specifications without it, so it raises no error of its own, and alone it yields a cache
  without container and without sink. A cache constructed with it has no container and no
  sink for \<open>q\<close>, \<open>cache\<close> for \<open>q\<close> leaves it as it was, and \<open>consolidate_cache\<close> creates
  no container for \<open>q\<close>. Nothing is said of the two other forms of a specification.
\<close>

theorem unregistered_quantity_ignored:
  assumes "map_of m ''quantity'' = Some (PStr q)"
    and "q \<notin> fst ` set (case regs of None \<Rightarrow> OUTPUT_QUANTITIES | Some r \<Rightarrow> r)"
  shows "OutputCache_init sf (ps1 @ Mapping m # ps2) regs sectors =
           OutputCache_init sf (ps1 @ ps2) regs sectors \<and>
         OutputCache_init sf [Mapping m] regs sectors =
           Inr \<lparr>agents = (case sectors of None \<Rightarrow> [[]] | Some l \<Rightarrow> extract_agents l),
                to_save = [], factory = []\<rparr> \<and>
         (\<forall>self. OutputCache_init sf (ps1 @ Mapping m # ps2) regs sectors = Inr self \<longrightarrow>
            q \<notin> fst ` set (to_save self) \<and> q \<notin> fst ` set (factory self) \<and>
            (\<forall>data. cache self data (Some q) = Inr self) \<and>
            (\<forall>year_of w.
               q \<notin> fst ` set (to_save (fst (snd (consolidate_cache year_of self w))))))"
proof -
  have skip: "OutputCache_init sf (ps1 @ Mapping m # ps2) regs sectors =
      OutputCache_init sf (ps1 @ ps2) regs sectors" for ps1 ps2
    using assms by (rule init_skip)
  have alone: "OutputCache_init sf [Mapping m] regs sectors =
      Inr \<lparr>agents = (case sectors of None \<Rightarrow> [[]] | Some l \<Rightarrow> extract_agents l),
           to_save = [], factory = []\<rparr>"
    using skip [of "[]" "[]"] by (simp add: OutputCache_init_def)
  have after: "q \<notin> fst ` set (to_save self) \<and> q \<notin> fst ` set (factory self) \<and>
      (\<forall>data. cache self data (Some q) = Inr self) \<and>
      (\<forall>year_of w. q \<notin> fst ` set (to_save (fst (snd (consolidate_cache year_of self w)))))"
    if "OutputCache_init sf (ps1 @ Mapping m # ps2) regs sectors = Inr self" for self
  proof -
    have k: "q \<notin> fst ` set (to_save self)"
      using init_keys(1) [OF that] assms(2) by auto
    then have "q \<notin> fst ` set (factory self)"
      using init_keys(2) [OF that] by auto
    moreover have "cache self data (Some q) = Inr self" for data
    proof -
      have "map_of (to_save self) q = None"
        using k by (simp add: map_of_eq_None_iff)
      then show ?thesis by (simp add: cache_def)
    qed
    ultimately show ?thesis
      using k by (simp add: consolidate_keys)
  qed
  show ?thesis
    using skip alone after by blast
qed

theorem unregistered_quantity_ignored_witness:
  "map_of [(''quantity'', PStr ''prices'')] ''quantity'' = Some (PStr ''prices'') \<and>
   ''prices'' \<notin> fst ` set OUTPUT_QUANTITIES \<and>
   OutputCache_init always_ok [spec_of ''capacity'', spec_of ''prices''] None None =
     Inr capacity_cache \<and>
   OutputCache_init always_ok [spec_of ''prices''] None None =
     Inr \<lparr>agents = [[]], to_save = [], factory = []\<rparr> \<and>
   cache capacity_cache installed (Some ''prices'') = Inr capacity_cache"
proof -
  have a: "map_of [(''quantity'', PStr ''prices'')] ''quantity'' = Some (PStr ''prices'')"
    by simp
  have b: "''prices'' \<notin> fst ` set (case None of None \<Rightarrow> OUTPUT_QUANTITIES | Some r \<Rightarrow> r)"
    by (simp add: OUTPUT_QUANTITIES_def)
  from unregistered_quantity_ignored [OF a b, of always_ok "[spec_of ''capacity'']" "[]" None]
  show ?thesis
    using a b capacity_cache_init by (simp add: spec_of_def)
qed

text \<open>
  Claim C10 (a defect of the code). The class documents that a lone string stands for
  \<open>{'quantity': string}\<close>, and \<open>_factory\<close> treats it so. The constructor indexes the
  parameter with \<open>"quantity"\<close> before it reaches \<open>_factory\<close>, which raises \<open>TypeError\<close> on a
  string, whereas the mapping is accepted.
\<close>

theorem init_lone_string_raises:
  "OutputCache_init sf (Lone s # ps) regs sectors = Inl TypeError \<and>
   OutputCache_init always_ok [Lone ''capacity''] None None = Inl TypeError \<and>
   OutputCache_init always_ok [Mapping [(''quantity'', PStr ''capacity'')]] None None =
     Inr capacity_cache \<and>
   factory_impl reg sf [Lone s] n = factory_impl reg sf [Mapping [(''quantity'', PStr s)]] n"
  using capacity_cache_init
  by (simp add: OutputCache_init_def quantity_in_def getitem_quantity_def factory_impl_def
      spec_of_def)

section \<open>The agent record\<close>

lemma map_of_fold_update:
  "map_of (fold (\<lambda>a inf. AList.update (key a) (val a) inf) xs acc) u =
     (case filter (\<lambda>a. key a = u) xs of
        [] \<Rightarrow> map_of acc u
      | y # ys \<Rightarrow> Some (val (last (y # ys))))"
proof (induction xs arbitrary: acc)
  case Nil
  then show ?case by simp
next
  case (Cons x xs)
  show ?case
  proof (cases "filter (\<lambda>a. key a = u) xs")
    case Nil
    show ?thesis
    proof (cases "key x = u")
      case True
      with Nil show ?thesis
        using Cons.IH [of "AList.update (key x) (val x) acc"] by (simp add: update_conv')
    next
      case False
      with Nil show ?thesis
        using Cons.IH [of "AList.update (key x) (val x) acc"] by (simp add: update_conv')
    qed
  next
    case (Cons y ys)
    then show ?thesis
      using Cons.IH [of "AList.update (key x) (val x) acc"] by simp
  qed
qed

lemma internal_lookup:
  "map_of (extract_agents_internal s) u =
     (if u \<in> set (map uuid (getattr_agents s))
      then (let a = last (filter (\<lambda>a. uuid a = u) (sort_key agent_name (getattr_agents s)))
            in Some [(''agent'', agent_name a), (''type'', category a),
                     (''sector'', getattr_name s)])
      else None)"
proof -
  let ?fs = "filter (\<lambda>a. uuid a = u) (sort_key agent_name (getattr_agents s))"
  have look: "map_of (extract_agents_internal s) u =
      (case ?fs of [] \<Rightarrow> None
       | y # ys \<Rightarrow> Some [(''agent'', agent_name (last (y # ys))),
           (''type'', category (last (y # ys))), (''sector'', getattr_name s)])"
    unfolding extract_agents_internal_def Let_def
    using map_of_fold_update
        [of uuid "\<lambda>a. [(''agent'', agent_name a), (''type'', category a),
                         (''sector'', getattr_name s)]" "sort_key agent_name (getattr_agents s)"
          "[]" u]
    by (simp cong: list.case_cong)
  have emp: "?fs = [] \<longleftrightarrow> u \<notin> set (map uuid (getattr_agents s))"
    by (auto simp: filter_empty_conv)
  show ?thesis
  proof (cases ?fs)
    case Nil
    with look emp show ?thesis by simp
  next
    case (Cons y ys)
    with look emp show ?thesis by (simp add: Let_def)
  qed
qed

lemma chain_lookup_layers:
  "chain_lookup (map extract_agents_internal sectors) u =
     (case find (\<lambda>s. u \<in> set (map uuid (getattr_agents s))) sectors of
        None \<Rightarrow> None
      | Some s \<Rightarrow> map_of (extract_agents_internal s) u)"
  by (induction sectors) (auto simp: internal_lookup Let_def)

text \<open>
  Claim C5. Looking an identifier up in the record built by \<open>extract_agents\<close> fails when
  no sector has an agent with it. Otherwise the answer comes from the first sector of the
  list that has such an agent, whatever later sectors hold: it is the name and the
  category of that agent (the last one in the order of names, should the sector have
  several with the identifier) and the name of the sector, \<open>unnamed\<close> when the sector
  has none.
\<close>

theorem extract_agents_first_wins:
  "chain_lookup (extract_agents sectors) u =
     (case find (\<lambda>s. u \<in> set (map uuid (getattr_agents s))) sectors of
        None \<Rightarrow> None
      | Some s \<Rightarrow>
          (let a = last (filter (\<lambda>a. uuid a = u) (sort_key agent_name (getattr_agents s)))
           in Some [(''agent'', agent_name a), (''type'', category a),
                    (''sector'', case sector_name s of None \<Rightarrow> ''unnamed'' | Some n \<Rightarrow> n)]))"
proof (cases "sectors = []")
  case True
  then show ?thesis
    by (simp add: extract_agents_def ChainMap_def)
next
  case False
  then have "chain_lookup (extract_agents sectors) u =
      chain_lookup (map extract_agents_internal sectors) u"
    by (simp add: extract_agents_def ChainMap_def)
  also have "\<dots> = (case find (\<lambda>s. u \<in> set (map uuid (getattr_agents s))) sectors of
        None \<Rightarrow> None | Some s \<Rightarrow> map_of (extract_agents_internal s) u)"
    by (rule chain_lookup_layers)
  finally show ?thesis
    by (auto simp: internal_lookup getattr_name_def Let_def split: option.splits
        dest: find_Some_iff [THEN iffD1])
qed

theorem extract_agents_first_wins_witness:
  "chain_lookup (extract_agents [power, gas]) ''X'' =
     Some [(''agent'', ''B2''), (''type'', ''retrofit''), (''sector'', ''power'')] \<and>
   chain_lookup (extract_agents [gas, power]) ''X'' =
     Some [(''agent'', ''G1''), (''type'', ''newcapa''), (''sector'', ''unnamed'')] \<and>
   chain_lookup (extract_agents [power, gas]) ''Z'' =
     Some [(''agent'', ''G2''), (''type'', ''retrofit''), (''sector'', ''unnamed'')] \<and>
   chain_lookup (extract_agents [power, gas]) ''W'' = None"
proof -
  have a: "chain_lookup (extract_agents [power, gas]) ''X'' =
      Some [(''agent'', ''B2''), (''type'', ''retrofit''), (''sector'', ''power'')]"
    by (subst extract_agents_first_wins) code_simp
  have b: "chain_lookup (extract_agents [gas, power]) ''X'' =
      Some [(''agent'', ''G1''), (''type'', ''newcapa''), (''sector'', ''unnamed'')]"
    by (subst extract_agents_first_wins) code_simp
  have c: "chain_lookup (extract_agents [power, gas]) ''Z'' =
      Some [(''agent'', ''G2''), (''type'', ''retrofit''), (''sector'', ''unnamed'')]"
    by (subst extract_agents_first_wins) code_simp
  have d: "chain_lookup (extract_agents [power, gas]) ''W'' = None"
    by (subst extract_agents_first_wins) code_simp
  from a b c d show ?thesis by simp
qed

section \<open>The consolidated capacity\<close>



lemma cell_of_mk_row:
  "cell_of (mk_row cols f) c = (if c \<in> set cols then f c else NA)"
  by (simp add: cell_of_def mk_row_def map_of_map_restrict restrict_map_def)





lemma columns_right_join:
  "columns (right_join l r) = columns l @ filter (\<lambda>c. c \<notin> set (columns l)) (columns r)"
  by (simp add: right_join_def result_columns_def)

text \<open>
  The right bias of the join: every row of the later table is kept, and every row of the
  result is a row of the later table on the columns of the later table.
\<close>

lemma agree_common:
  "agree (common_columns left right) lr rr \<Longrightarrow> c \<in> set (columns left) \<Longrightarrow>
   c \<in> set (columns right) \<Longrightarrow> cell_of lr c = cell_of rr c"
  by (simp add: agree_def common_columns_def list_all_iff)

lemma joined_rows_nonempty: "joined_rows left right rr \<noteq> []"
  by (simp add: joined_rows_def Let_def)

lemma joined_rows_cell:
  assumes r: "r \<in> set (joined_rows left right rr)" and c: "c \<in> set (columns right)"
  shows "cell_of r c = cell_of rr c"
proof -
  let ?cols = "result_columns left right"
  let ?ms = "filter (\<lambda>lr. agree (common_columns left right) lr rr) (rows left)"
  have in_cols: "c \<in> set ?cols"
    using c by (auto simp: result_columns_def)
  show ?thesis
  proof (cases "?ms = []")
    case True
    with r have "r = mk_row ?cols (\<lambda>c. if c \<in> set (columns right) then cell_of rr c else NA)"
      by (simp add: joined_rows_def Let_def)
    then show ?thesis
      using c in_cols by (simp add: cell_of_mk_row)
  next
    case False
    with r obtain lr where lr: "lr \<in> set ?ms"
      and r': "r = mk_row ?cols
        (\<lambda>c. if c \<in> set (columns left) then cell_of lr c else cell_of rr c)"
      by (auto simp: joined_rows_def Let_def)
    have "agree (common_columns left right) lr rr"
      using lr by simp
    from agree_common [OF this _ c]
    have "c \<in> set (columns left) \<Longrightarrow> cell_of lr c = cell_of rr c"
      by simp
    then show ?thesis
      using r' in_cols by (simp add: cell_of_mk_row)
  qed
qed

lemma right_join_keeps_later_rows:
  "(\<forall>rr \<in> set (rows right). \<exists>r \<in> set (rows (right_join left right)).
       \<forall>c \<in> set (columns right). cell_of r c = cell_of rr c) \<and>
   (\<forall>r \<in> set (rows (right_join left right)). \<exists>rr \<in> set (rows right).
       \<forall>c \<in> set (columns right). cell_of r c = cell_of rr c) \<and>
   set (columns right) \<subseteq> set (columns (right_join left right))"
proof (intro conjI ballI)
  have rows_eq: "rows (right_join left right) = concat (map (joined_rows left right) (rows right))"
    by (simp add: right_join_def)
  {
    fix rr assume rr: "rr \<in> set (rows right)"
    have "hd (joined_rows left right rr) \<in> set (joined_rows left right rr)"
      using joined_rows_nonempty by (rule hd_in_set)
    then obtain r where r: "r \<in> set (joined_rows left right rr)" ..
    have "\<forall>c \<in> set (columns right). cell_of r c = cell_of rr c"
      using joined_rows_cell [OF r] by blast
    moreover have "r \<in> set (rows (right_join left right))"
      unfolding rows_eq using r rr by auto
    ultimately show "\<exists>r \<in> set (rows (right_join left right)).
        \<forall>c \<in> set (columns right). cell_of r c = cell_of rr c"
      by blast
  }
  {
    fix r assume "r \<in> set (rows (right_join left right))"
    then obtain rr where rr: "rr \<in> set (rows right)" and r: "r \<in> set (joined_rows left right rr)"
      unfolding rows_eq by auto
    have "\<forall>c \<in> set (columns right). cell_of r c = cell_of rr c"
      using joined_rows_cell [OF r] by blast
    with rr show "\<exists>rr \<in> set (rows right). \<forall>c \<in> set (columns right). cell_of r c = cell_of rr c"
      by blast
  }
  show "set (columns right) \<subseteq> set (columns (right_join left right))"
    by (auto simp: columns_right_join)
qed

section \<open>Annotation with the agent record\<close>


lemma loc_set_columns:
  "loc_set d flt k v = Inr d' \<Longrightarrow> set (columns d') = insert k (set (columns d))"
  by (auto simp: loc_set_def split: if_splits)






lemma sort_columns_rows:
  "i < length (rows d) \<Longrightarrow> c \<in> set (columns d) \<Longrightarrow>
   cell_of (rows (sort_columns d) ! i) c = cell_of (rows d ! i) c"
  by (simp add: sort_columns_def Let_def cell_of_mk_row)











text \<open>
  Claim C4 (a defect of the code). The loop over the identifiers of the record compares
  each identifier with the column \<open>agent\<close>, which the loop itself overwrites with display
  names. In the sector \<open>heat\<close> the agent \<open>u1\<close> is displayed as \<open>u2\<close>, which is the
  identifier of the agent visited next: the row cached for \<open>u1\<close> is annotated with the
  values of \<open>u1\<close> and then again with those of \<open>u2\<close>. It ends with the name \<open>v\<close> and
  the type \<open>c2\<close>, where the record holds \<open>u2\<close> and \<open>c1\<close> for \<open>u1\<close>.
\<close>

theorem capacity_rematches_overwritten_agent:
  "cache capacity_cache capacity_array None =
     Inr (capacity_cache\<lparr>to_save := [(''capacity'', [(0, capacity_array)])]\<rparr>) \<and>
   chain_keys (extract_agents [clashing]) = [''u1'', ''u2''] \<and>
   chain_lookup (extract_agents [clashing]) ''u1'' =
     Some [(''agent'', ''u2''), (''type'', ''c1''), (''sector'', ''heat'')] \<and>
   chain_lookup (extract_agents [clashing]) ''u2'' =
     Some [(''agent'', ''v''), (''type'', ''c2''), (''sector'', ''heat'')] \<and>
   combine_arrays merge_right [(0, capacity_array)] ''capacity'' =
     Inr \<lparr>columns = [''agent'', ''capacity''],
          rows = [[(''agent'', Txt ''u1''), (''capacity'', Num 9)]]\<rparr> \<and>
   capacity merge_right [(0, capacity_array)] (extract_agents [clashing]) =
     Inr \<lparr>columns = [''agent'', ''capacity'', ''sector'', ''type''],
          rows = [[(''agent'', Txt ''v''), (''capacity'', Num 9),
                   (''sector'', Txt ''heat''), (''type'', Txt ''c2'')]]\<rparr>"
proof -
  have a: "cache capacity_cache capacity_array None =
      Inr (capacity_cache\<lparr>to_save := [(''capacity'', [(0, capacity_array)])]\<rparr>)"
    by (simp add: cache_def capacity_cache_def dataset_setitem_def capacity_array_def rename_def
        ds_dims_def)
  have b: "chain_keys (extract_agents [clashing]) = [''u1'', ''u2'']"
    by code_simp
  have c: "chain_lookup (extract_agents [clashing]) ''u1'' =
      Some [(''agent'', ''u2''), (''type'', ''c1''), (''sector'', ''heat'')]"
    by code_simp
  have d: "chain_lookup (extract_agents [clashing]) ''u2'' =
      Some [(''agent'', ''v''), (''type'', ''c2''), (''sector'', ''heat'')]"
    by code_simp
  have e: "combine_arrays merge_right [(0, capacity_array)] ''capacity'' =
      Inr \<lparr>columns = [''agent'', ''capacity''],
           rows = [[(''agent'', Txt ''u1''), (''capacity'', Num 9)]]\<rparr>"
    by code_simp
  have f: "capacity merge_right [(0, capacity_array)] (extract_agents [clashing]) =
      Inr \<lparr>columns = [''agent'', ''capacity'', ''sector'', ''type''],
           rows = [[(''agent'', Txt ''v''), (''capacity'', Num 9),
                    (''sector'', Txt ''heat''), (''type'', Txt ''c2'')]]\<rparr>"
    by code_simp
  from a b c d e f show ?thesis
    by simp
qed

end
